theory Spec2Isabelle
  imports Complex_Main "HOL-Library.Sublist"
begin

section \<open>Text, the speech buffer and the session state\<close>

text \<open>
  A Python \<open>str\<close> is a sequence of Unicode code points, so text is a list of natural
  numbers; \<open>length\<close> then counts what Python's \<open>len\<close> counts. Byte strings (the chunks
  read from the terminal) are \<open>string\<close>. \<open>py\<close> writes an ASCII literal as text.
\<close>

type_synonym str = "nat list"

definition py :: "string \<Rightarrow> str" where
  "py s = map of_char s"

text \<open>The exceptions that the modelled functions can raise.\<close>

datatype error = TypeError | AttributeError | BrokenPipeError | RecursionError

text \<open>
  \<open>speech_buffer\<close> is an \<open>io.StringIO\<close>: a value and a stream position. \<open>write\<close>
  overwrites at the position (padding with NUL when the position is past the end) and
  advances it; \<open>truncate\<close> cuts the value and leaves the position alone.
\<close>

record stringio =
  getvalue :: str
  tell :: nat

definition write_io :: "str \<Rightarrow> stringio \<Rightarrow> stringio" where
  "write_io s io =
     (let v = getvalue io; p = tell io;
          padded = v @ replicate (p - length v) 0
      in \<lparr>getvalue = take p padded @ s @ drop (p + length s) padded,
          tell = p + length s\<rparr>)"

definition truncate_io :: "nat \<Rightarrow> stringio \<Rightarrow> stringio" where
  "truncate_io n io = io\<lparr>getvalue := take n (getvalue io)\<rparr>"

definition seek :: "nat \<Rightarrow> stringio \<Rightarrow> stringio" where
  "seek n io = io\<lparr>tell := n\<rparr>"

text \<open>
  The \<open>speech\<close> and \<open>symbols\<close> sections of \<open>state.config\<close>, with the booleans already
  parsed (\<open>getboolean\<close>). \<open>symbols\<close> maps a code point to its spoken word, in file order.
\<close>

record config =
  process_symbols :: bool
  key_echo :: bool
  cursor_tracking :: bool
  line_pause :: bool
  repeated_symbols :: bool
  repeated_symbols_values :: str
  symbols :: "(nat \<times> str) list"

text \<open>The callables that the program hands to \<open>schedule\<close>.\<close>

datatype callback = Read_buffer_scheduled | Sayline_at_cursor | Saychar_at_cursor

text \<open>
  The terminal emulator's grid. \<open>screen.buffer\<close> is a dictionary of rows, each a
  dictionary of cells, and a missing row or cell reads as the blank default cell; only a
  cell's \<open>data\<close> is read by the program, its presentation attributes are kept opaque.
  The cursor's fields \<open>x\<close> and \<open>y\<close> are \<open>cursor_x\<close> and \<open>cursor_y\<close> here.
\<close>

record cell =
  data :: str
  attrs :: nat

type_synonym buffer = "int \<rightharpoonup> (int \<rightharpoonup> cell)"

record cursor =
  cursor_x :: int
  cursor_y :: int
  cursor_attrs :: nat
  hidden :: bool

record pyte_screen =
  lines :: int
  columns :: int
  cursor :: cursor
  buffer :: buffer
  dirty :: "int set"
  mode :: "int set"

record my_screen =
  pyte :: pyte_screen
  saved_cursor :: "cursor option"
  saved_buffer :: "buffer option"

definition default_char :: cell where
  "default_char = \<lparr>data = [32], attrs = 0\<rparr>"

definition cell_at :: "buffer \<Rightarrow> int \<Rightarrow> int \<Rightarrow> cell" where
  "cell_at b y x =
     (case b y of None \<Rightarrow> default_char
      | Some row \<Rightarrow> (case row x of None \<Rightarrow> default_char | Some c \<Rightarrow> c))"

text \<open>
  The module's globals: the fields of \<open>state\<close>, \<open>speech_buffer\<close>, \<open>lastkey\<close>, \<open>screen\<close>,
  and \<open>sent\<close>, the arguments of the successive calls of \<open>synth.send\<close> (what \<open>send\<close> does
  with one of them is the subject of the section on the synth driver).
\<close>

record world =
  revx :: int
  revy :: int
  delayed_functions :: "(real \<times> callback) list"
  silence :: bool
  tempsilence :: bool
  delaying_output :: bool
  last_drawn_x :: int
  last_drawn_y :: int
  config :: config
  speech_buffer :: stringio
  lastkey :: str
  screen :: my_screen
  sent :: "str list"

definition synth_send :: "str \<Rightarrow> world \<Rightarrow> world" where
  "synth_send t w = w\<lparr>sent := sent w @ [t]\<rparr>"

section \<open>Speaking\<close>

text \<open>\<open>str.isspace\<close>, which decides what \<open>str.strip\<close> removes.\<close>

definition isspace :: "nat \<Rightarrow> bool" where
  "isspace c \<longleftrightarrow>
     (9 \<le> c \<and> c \<le> 13) \<or> (28 \<le> c \<and> c \<le> 32) \<or> c = 133 \<or> c = 160 \<or> c = 5760 \<or>
     (8192 \<le> c \<and> c \<le> 8202) \<or> c = 8232 \<or> c = 8233 \<or> c = 8239 \<or> c = 8287 \<or> c = 12288"

definition strip :: "str \<Rightarrow> str" where
  "strip s = rev (dropWhile isspace (rev (dropWhile isspace s)))"

text \<open>
  \<open>build_symbols_re\<close>: the alternation of every symbol but the space; \<open>None\<close> when
  nothing is left. \<open>main\<close> stores it once in \<open>state.symbols_re\<close> and nothing changes the
  \<open>symbols\<close> section afterwards, so it is computed from the section where it is used.
\<close>

definition build_symbols_re :: "config \<Rightarrow> nat list option" where
  "build_symbols_re c =
     (let candidates = filter (\<lambda>symbol. symbol \<noteq> 32) (map fst (symbols c))
      in if candidates = [] then None else Some candidates)"

definition replace_symbols :: "config \<Rightarrow> nat \<Rightarrow> str" where
  "replace_symbols c m =
     (case map_of (symbols c) m of None \<Rightarrow> [m] | Some word \<Rightarrow> [32] @ word @ [32])"

definition say :: "str \<Rightarrow> bool \<Rightarrow> world \<Rightarrow> world" where
  "say data0 force_process_symbols w =
     (let data1 = strip data0;
          data2 = (case build_symbols_re (config w) of
                     None \<Rightarrow> data1
                   | Some re \<Rightarrow>
                       if force_process_symbols \<or> process_symbols (config w)
                       then concat (map (\<lambda>ch. if ch \<in> set re then replace_symbols (config w) ch
                                               else [ch]) data1)
                       else data1)
      in synth_send (py ''s'' @ data2 @ [10]) w)"

text \<open>\<open>ord(ch)\<close> raises \<open>TypeError\<close> unless \<open>ch\<close> is a single character.\<close>

definition say_character :: "str \<Rightarrow> world \<Rightarrow> error + world" where
  "say_character ch0 w =
     (let ch = (if ch0 = [] then [32] else ch0)
      in case ch of
           [c] \<Rightarrow>
             (case map_of (symbols (config w)) c of
                Some word \<Rightarrow> Inr (synth_send (py ''s'' @ word @ [10]) w)
              | None \<Rightarrow> Inr (synth_send (py ''l'' @ ch @ [10]) w))
         | _ \<Rightarrow> Inl TypeError)"

section \<open>Repeated-symbol summarization\<close>

text \<open>\<open>str(n)\<close> for a length: the decimal digits.\<close>

function str_of_nat :: "nat \<Rightarrow> str" where
  "str_of_nat n = (if n < 10 then [48 + n] else str_of_nat (n div 10) @ [48 + n mod 10])"
  by pat_completeness auto
termination
  by (relation "measure id") auto

declare str_of_nat.simps [simp del]

text \<open>
  \<open>matcher.finditer(line)\<close> for the pattern \<open>([symbols])\1*\<close>: the maximal runs of one
  character of the class, left to right, each as (\<open>group()\<close>, \<open>groups()[0]\<close>). The class
  is given by the characters it denotes; for the default \<open>-=!#\<close> these are its four
  characters.
\<close>

function finditer :: "nat list \<Rightarrow> str \<Rightarrow> (str \<times> nat) list" where
  "finditer syms [] = []"
| "finditer syms (c # cs) =
     (if c \<in> set syms
      then (c # takeWhile (\<lambda>d. d = c) cs, c) # finditer syms (dropWhile (\<lambda>d. d = c) cs)
      else finditer syms cs)"
  by pat_completeness auto
termination
  by (relation "measure (\<lambda>(syms, l). length l)")
     (auto simp: length_dropWhile_le less_Suc_eq_le)

text \<open>\<open>s.replace(old, new, 1)\<close>: the first occurrence of \<open>old\<close> in \<open>s\<close> becomes \<open>new\<close>.\<close>

fun replace_first :: "str \<Rightarrow> str \<Rightarrow> str \<Rightarrow> str" where
  "replace_first old new [] = (if old = [] then new else [])"
| "replace_first old new (c # cs) =
     (if prefix old (c # cs) then new @ drop (length old) (c # cs)
      else c # replace_first old new cs)"

definition replace_duplicate_characters_with_count :: "config \<Rightarrow> str \<Rightarrow> str" where
  "replace_duplicate_characters_with_count c line =
     (if repeated_symbols c
      then foldl (\<lambda>new_line (match, g).
                    if length match > 1
                    then replace_first match (str_of_nat (length match) @ [32] @ [g]) new_line
                    else new_line)
                 line (finditer (repeated_symbols_values c) line)
      else line)"

section \<open>The speech buffer's flush and the scheduler\<close>

definition sb :: "world \<Rightarrow> world" where
  "sb w =
     (let data = getvalue (speech_buffer w);
          w1 = w\<lparr>speech_buffer := seek 0 (truncate_io 0 (speech_buffer w))\<rparr>
      in if data = [] then w1
         else if \<not> tempsilence w1
         then say (replace_duplicate_characters_with_count (config w1) data) False w1
         else w1)"

text \<open>\<open>now\<close> is the value of \<open>time.monotonic()\<close> at the call, in seconds.\<close>

definition schedule :: "real \<Rightarrow> real \<Rightarrow> callback \<Rightarrow> bool \<Rightarrow> world \<Rightarrow> world" where
  "schedule now timeout func set_tempsilence w =
     (let w1 = w\<lparr>delayed_functions := delayed_functions w @ [(now + timeout, func)]\<rparr>
      in if set_tempsilence then w1\<lparr>tempsilence := True\<rparr> else w1)"


definition read_buffer_scheduled :: "world \<Rightarrow> world" where
  "read_buffer_scheduled w = sb (w\<lparr>delaying_output := False\<rparr>)"

text \<open>
  The part of \<open>main\<close>'s loop that follows \<open>stream.feed\<close> of a chunk of child output;
  \<open>x\<close> and \<open>y\<close> are the cursor's coordinates before the feed.
\<close>

definition main_after_feed :: "real \<Rightarrow> int \<Rightarrow> int \<Rightarrow> world \<Rightarrow> world" where
  "main_after_feed now x y w =
     (let c = cursor (pyte (screen w));
          w1 = (if cursor_tracking (config w) \<and> \<not> (cursor_x c = x \<and> cursor_y c = y)
                then w\<lparr>revx := cursor_x c, revy := cursor_y c\<rparr> else w)
      in if \<not> silence w1 \<and> \<not> tempsilence w1
         then (if tell (speech_buffer w1) > 0 \<and> \<not> delaying_output w1
               then schedule now 0.005 Read_buffer_scheduled False w1
               else w1)
         else w1)"

section \<open>Concrete sessions\<close>

text \<open>
  The state that \<open>State.__init__\<close> builds, an empty speech buffer and a fresh screen of
  \<open>cols\<close> columns and \<open>rows\<close> lines.
\<close>

definition initial_config :: config where
  "initial_config =
     \<lparr>process_symbols = False, key_echo = True, cursor_tracking = True, line_pause = True,
      repeated_symbols = False, repeated_symbols_values = py ''-=!#'', symbols = []\<rparr>"

definition initial_screen :: "int \<Rightarrow> int \<Rightarrow> my_screen" where
  "initial_screen cols rows =
     \<lparr>pyte = \<lparr>lines = rows, columns = cols,
               cursor = \<lparr>cursor_x = 0, cursor_y = 0, cursor_attrs = 0, hidden = False\<rparr>,
               buffer = Map.empty, dirty = {}, mode = {}\<rparr>,
      saved_cursor = None, saved_buffer = None\<rparr>"

definition initial_world :: world where
  "initial_world =
     \<lparr>revx = 0, revy = 0, delayed_functions = [], silence = False, tempsilence = False,
      delaying_output = False, last_drawn_x = 0, last_drawn_y = 0, config = initial_config,
      speech_buffer = \<lparr>getvalue = [], tell = 0\<rparr>, lastkey = [],
      screen = initial_screen 80 24, sent = []\<rparr>"

text \<open>A session in which the child has just printed \<open>hi\<close>.\<close>

definition hi_world :: world where
  "hi_world = initial_world\<lparr>speech_buffer := write_io (py ''hi'') (speech_buffer initial_world)\<rparr>"


text \<open>A configuration that summarizes runs of hyphens, spaces and equals signs.\<close>

definition spaces_config :: config where
  "spaces_config = initial_config\<lparr>repeated_symbols := True, repeated_symbols_values := py ''- =''\<rparr>"

section \<open>The key dispatcher\<close>

text \<open>A callable of a keymap returns \<open>PASSTHROUGH\<close>, \<open>REMOVE\<close> or nothing.\<close>

datatype result = PASSTHROUGH | REMOVE















section \<open>The review cursor\<close>

definition get_char :: "world \<Rightarrow> str" where
  "get_char w = data (cell_at (buffer (pyte (screen w))) (revy w) (revx w))"

text \<open>\<open>sayline\<close> joins the cells of columns \<open>0\<close> to \<open>columns - 1\<close> of a row.\<close>

definition sayline :: "int \<Rightarrow> world \<Rightarrow> world" where
  "sayline y w =
     (let line0 = strip (concat (map (\<lambda>x. data (cell_at (buffer (pyte (screen w))) y x))
                                     [0 .. columns (pyte (screen w)) - 1]));
          line = (if line0 = [] then py ''blank'' else line0);
          new_line = replace_duplicate_characters_with_count (config w) line
      in say new_line False w)"

definition prevline :: "world \<Rightarrow> world" where
  "prevline w =
     (let w1 = w\<lparr>revy := revy w - 1\<rparr>;
          w2 = (if revy w1 < 0 then (say (py ''top'') False w1)\<lparr>revy := 0\<rparr> else w1)
      in sayline (revy w2) w2)"

definition nextline :: "world \<Rightarrow> world" where
  "nextline w =
     (let w1 = w\<lparr>revy := revy w + 1\<rparr>;
          w2 = (if revy w1 > lines (pyte (screen w1)) - 1
                then (say (py ''bottom'') False w1)\<lparr>revy := lines (pyte (screen w1)) - 1\<rparr>
                else w1)
      in sayline (revy w2) w2)"

text \<open>\<open>saychar(y, x)\<close>, with \<open>phonetically\<close> at its default \<open>False\<close>.\<close>

definition saychar :: "int \<Rightarrow> int \<Rightarrow> world \<Rightarrow> error + world" where
  "saychar y x w = say_character (data (cell_at (buffer (pyte (screen w))) y x)) w"

text \<open>
  The loop of \<open>skip_to_previous_char\<close> has no lower bound of its own: it stops at the
  first cell whose data is not empty, and does not return when there is none.
\<close>

partial_function (option) skip_to_previous_char :: "world \<Rightarrow> world option" where
  "skip_to_previous_char w =
     (if get_char w = [] then skip_to_previous_char (w\<lparr>revx := revx w - 1\<rparr>) else Some w)"

definition prevchar :: "world \<Rightarrow> (error + world) option" where
  "prevchar w =
     (let w1 = w\<lparr>revx := revx w - 1\<rparr>;
          w2 = (if revx w1 < 0 then (say (py ''left'') False w1)\<lparr>revx := 0\<rparr> else w1)
      in case skip_to_previous_char w2 of
           None \<Rightarrow> None
         | Some w3 \<Rightarrow> Some (saychar (revy w3) (revx w3) w3))"

text \<open>\<open>wcwidth\<close> is the column width that the \<open>wcwidth\<close> library gives to a cell's data.\<close>

definition nextchar :: "(str \<Rightarrow> int) \<Rightarrow> world \<Rightarrow> (error + world) option" where
  "nextchar wcwidth w =
     (let w1 = w\<lparr>revx := revx w + wcwidth (get_char w)\<rparr>
      in if revx w1 > columns (pyte (screen w1)) - 1
         then (case skip_to_previous_char
                      ((say (py ''right'') False w1)\<lparr>revx := columns (pyte (screen w1)) - 1\<rparr>) of
                 None \<Rightarrow> None
               | Some w2 \<Rightarrow> Some (saychar (revy w2) (revx w2) w2))
         else Some (saychar (revy w1) (revx w1) w1))"

definition topOfScreen :: "world \<Rightarrow> world" where
  "topOfScreen w = sayline 0 (w\<lparr>revy := 0\<rparr>)"

definition bottomOfScreen :: "world \<Rightarrow> world" where
  "bottomOfScreen w =
     sayline (lines (pyte (screen w)) - 1) (w\<lparr>revy := lines (pyte (screen w)) - 1\<rparr>)"

definition startOfLine :: "world \<Rightarrow> error + world" where
  "startOfLine w = saychar (revy w) 0 (w\<lparr>revx := 0\<rparr>)"

definition endOfLine :: "world \<Rightarrow> error + world" where
  "endOfLine w =
     saychar (revy w) (columns (pyte (screen w)) - 1) (w\<lparr>revx := columns (pyte (screen w)) - 1\<rparr>)"

definition move_prevchar :: "world \<Rightarrow> world" where
  "move_prevchar w =
     (if revx w = 0
      then (if revy w = 0 then w
            else w\<lparr>revy := revy w - 1, revx := columns (pyte (screen w)) - 1\<rparr>)
      else w\<lparr>revx := revx w - 1\<rparr>)"

definition move_nextchar :: "world \<Rightarrow> world" where
  "move_nextchar w =
     (if revx w = columns (pyte (screen w)) - 1
      then (if revy w = lines (pyte (screen w)) - 1 then w
            else w\<lparr>revy := revy w + 1, revx := 0\<rparr>)
      else w\<lparr>revx := revx w + 1\<rparr>)"

text \<open>The two loops of \<open>sayword\<close>: back to the start of the word, then along it.\<close>

function sayword_back :: "world \<Rightarrow> world" where
  "sayword_back w =
     (if revx w > 0 \<and> get_char w \<noteq> [32] \<and>
         data (cell_at (buffer (pyte (screen w))) (revy w) (revx w - 1)) \<noteq> [32]
      then sayword_back (move_prevchar w) else w)"
  by pat_completeness auto
termination
  by (relation "measure (\<lambda>w. nat (revx w))") (auto simp: move_prevchar_def)

function sayword_along :: "str \<Rightarrow> world \<Rightarrow> str \<times> world" where
  "sayword_along word w =
     (if revx w < columns (pyte (screen w)) - 1
      then (let w1 = move_nextchar w
            in if get_char w1 = [32] then (word, w1)
               else sayword_along (word @ get_char w1) w1)
      else (word, w))"
  by pat_completeness auto
termination
  by (relation "measure (\<lambda>(word, w). nat (columns (pyte (screen w)) - 1 - revx w))")
     (auto simp: move_nextchar_def)

declare sayword_back.simps [simp del] sayword_along.simps [simp del]

text \<open>\<open>' '.join(word)\<close>: the characters of the word with the separator between them.\<close>

fun join :: "str \<Rightarrow> str \<Rightarrow> str" where
  "join sep [] = []"
| "join sep [c] = [c]"
| "join sep (c # cs) = c # sep @ join sep cs"

definition sayword :: "bool \<Rightarrow> world \<Rightarrow> world" where
  "sayword spell w =
     (let w1 = sayword_back w
      in if revx w1 = 0 \<and> get_char w1 = [32] then say (py ''space'') False w1
         else (case sayword_along (get_char w1) w1 of
                 (word, w2) \<Rightarrow>
                   (if spell then say (join [32] word) True w2 else say word False w2)
                     \<lparr>revx := revx w, revy := revy w\<rparr>))"

section \<open>The emulator's hooks\<close>

text \<open>
  \<open>MyScreen\<close> extends the emulator class of the \<open>pyte\<close> library. The methods it inherits
  act on the inherited part of the screen only and stand as parameters: \<open>super_draw\<close>,
  \<open>cursor_position\<close>, \<open>super_set_mode\<close> and \<open>super_reset_mode\<close> (the last two with the
  value of the keyword argument \<open>private\<close>).
\<close>

text \<open>The local variable \<open>add_to_buffer\<close> of \<open>draw2\<close>: false when the text is the last key.\<close>

definition add_to_buffer :: "str \<Rightarrow> world \<Rightarrow> bool" where
  "add_to_buffer text w \<longleftrightarrow> text \<noteq> lastkey w"

definition draw2 :: "(str \<Rightarrow> pyte_screen \<Rightarrow> pyte_screen) \<Rightarrow> str \<Rightarrow> world \<Rightarrow> error + world" where
  "draw2 super_draw text w =
     (case (if text = lastkey w \<and> length text = 1 \<and> key_echo (config w)
            then say_character text w else Inr w) of
        Inl e \<Rightarrow> Inl e
      | Inr w1 \<Rightarrow>
          (let w2 = w1\<lparr>lastkey := []\<rparr>;
               c = cursor (pyte (screen w2));
               w3 = (if cursor_y c = last_drawn_y w2 \<and> cursor_x c - last_drawn_x w2 > 1
                     then w2\<lparr>speech_buffer := write_io [32] (speech_buffer w2)\<rparr> else w2);
               w4 = w3\<lparr>screen := (screen w3)\<lparr>pyte := super_draw text (pyte (screen w3))\<rparr>\<rparr>
           in if add_to_buffer text w \<and> \<not> silence w4 \<and> \<not> tempsilence w4
              then Inr (w4\<lparr>speech_buffer := write_io text (speech_buffer w4),
                           last_drawn_x := cursor_x (cursor (pyte (screen w4))),
                           last_drawn_y := cursor_y (cursor (pyte (screen w4)))\<rparr>)
              else Inr w4))"

text \<open>\<open>MyScreen.draw\<close>: one \<open>draw2\<close> for each character of the text.\<close>

fun draw :: "(str \<Rightarrow> pyte_screen \<Rightarrow> pyte_screen) \<Rightarrow> str \<Rightarrow> world \<Rightarrow> error + world" where
  "draw super_draw [] w = Inr w"
| "draw super_draw (c # cs) w =
     (case draw2 super_draw [c] w of Inl e \<Rightarrow> Inl e | Inr w1 \<Rightarrow> draw super_draw cs w1)"

text \<open>The values that \<open>add_to_buffer\<close> takes in the successive calls of \<open>draw2\<close> by \<open>draw\<close>.\<close>

fun add_to_buffer_values :: "(str \<Rightarrow> pyte_screen \<Rightarrow> pyte_screen) \<Rightarrow> str \<Rightarrow> world \<Rightarrow> bool list" where
  "add_to_buffer_values super_draw [] w = []"
| "add_to_buffer_values super_draw (c # cs) w =
     add_to_buffer [c] w #
       (case draw2 super_draw [c] w of
          Inl e \<Rightarrow> []
        | Inr w1 \<Rightarrow> add_to_buffer_values super_draw cs w1)"

definition set_mode ::
  "(pyte_screen \<Rightarrow> pyte_screen) \<Rightarrow> (int list \<Rightarrow> bool \<Rightarrow> pyte_screen \<Rightarrow> pyte_screen)
     \<Rightarrow> int list \<Rightarrow> bool \<Rightarrow> my_screen \<Rightarrow> my_screen" where
  "set_mode cursor_position super_set_mode modes0 private s =
     (let modes = (if 3 \<in> set modes0 then remove1 3 modes0 else modes0);
          s1 = (if 1049 \<in> set modes
                then (let s2 = s\<lparr>saved_cursor := Some (cursor (pyte s)),
                                  saved_buffer := Some (buffer (pyte s))\<rparr>;
                          p1 = (pyte s2)\<lparr>dirty := dirty (pyte s2) \<union> {0 ..< lines (pyte s2)}\<rparr>;
                          p2 = cursor_position p1
                      in s2\<lparr>pyte := p2\<lparr>buffer := Map.empty\<rparr>\<rparr>)
                else s)
      in s1\<lparr>pyte := super_set_mode modes private (pyte s1)\<rparr>)"

text \<open>
  \<open>saved_cursor\<close> and \<open>saved_buffer\<close> are assigned together everywhere. With a cursor
  saved and no buffer the source would install \<open>None\<close> as the buffer; that state does
  not arise and the model does nothing in it.
\<close>

definition reset_mode ::
  "(int list \<Rightarrow> bool \<Rightarrow> pyte_screen \<Rightarrow> pyte_screen)
     \<Rightarrow> int list \<Rightarrow> bool \<Rightarrow> my_screen \<Rightarrow> my_screen" where
  "reset_mode super_reset_mode modes0 private s =
     (let modes = (if 3 \<in> set modes0 then remove1 3 modes0 else modes0);
          s1 = (case saved_cursor s of
                  None \<Rightarrow> s
                | Some c \<Rightarrow>
                    if 1049 \<in> set modes
                    then (case saved_buffer s of
                            None \<Rightarrow> s
                          | Some b \<Rightarrow>
                              s\<lparr>pyte := (pyte s)\<lparr>cursor := c, buffer := b,
                                          dirty := dirty (pyte s) \<union> {0 ..< lines (pyte s)}\<rparr>,
                                saved_cursor := None, saved_buffer := None\<rparr>)
                    else s)
      in s1\<lparr>pyte := super_reset_mode modes private (pyte s1)\<rparr>)"

text \<open>A method of the emulator other than the two above, applied to a \<open>MyScreen\<close>.\<close>

definition inherited :: "(pyte_screen \<Rightarrow> pyte_screen) \<Rightarrow> my_screen \<Rightarrow> my_screen" where
  "inherited f s = s\<lparr>pyte := f (pyte s)\<rparr>"

text \<open>
  For runs on concrete input: an inherited \<open>draw\<close> that only advances the cursor, a
  \<open>cursor_position\<close> that homes it, inherited mode methods that only keep the set of
  modes (a private mode is recorded shifted by five bits), a shell's screen showing
  \<open>$\<close> with the cursor after it, and what an editor then draws.
\<close>

definition advance_cursor :: "str \<Rightarrow> pyte_screen \<Rightarrow> pyte_screen" where
  "advance_cursor t p = p\<lparr>cursor := (cursor p)\<lparr>cursor_x := cursor_x (cursor p) + 1\<rparr>\<rparr>"

definition home_cursor :: "pyte_screen \<Rightarrow> pyte_screen" where
  "home_cursor p = p\<lparr>cursor := (cursor p)\<lparr>cursor_x := 0, cursor_y := 0\<rparr>\<rparr>"

definition shifted :: "int list \<Rightarrow> bool \<Rightarrow> int list" where
  "shifted modes private = (if private then map (\<lambda>m. m * 32) modes else modes)"

definition record_modes :: "int list \<Rightarrow> bool \<Rightarrow> pyte_screen \<Rightarrow> pyte_screen" where
  "record_modes modes private p = p\<lparr>mode := mode p \<union> set (shifted modes private)\<rparr>"

definition forget_modes :: "int list \<Rightarrow> bool \<Rightarrow> pyte_screen \<Rightarrow> pyte_screen" where
  "forget_modes modes private p = p\<lparr>mode := mode p - set (shifted modes private)\<rparr>"

definition shell_screen :: my_screen where
  "shell_screen =
     (initial_screen 80 24)
       \<lparr>pyte := (pyte (initial_screen 80 24))
          \<lparr>buffer := [0 \<mapsto> [0 \<mapsto> \<lparr>data = py ''$'', attrs = 0\<rparr>]],
           cursor := \<lparr>cursor_x = 1, cursor_y = 0, cursor_attrs = 0, hidden = False\<rparr>\<rparr>\<rparr>"

definition editor_draws :: "pyte_screen \<Rightarrow> pyte_screen" where
  "editor_draws p =
     p\<lparr>buffer := (buffer p)(5 \<mapsto> [0 \<mapsto> \<lparr>data = py ''~'', attrs = 0\<rparr>]),
       cursor := (cursor p)\<lparr>cursor_x := 1, cursor_y := 5\<rparr>\<rparr>"

text \<open>The user has typed \<open>a\<close> and the child is about to echo it.\<close>

definition typed_a_world :: world where
  "typed_a_world = initial_world\<lparr>lastkey := py ''a''\<rparr>"

text \<open>
  A row that ends in a wide character: U+4E16 in column 78 and its empty right half in
  column 79, on rows 0 and 1; the review cursor stands on the wide character of row 1.
  \<open>wcwidth_of\<close> gives the widths of the cells that occur.
\<close>

definition wide_row :: "int \<rightharpoonup> cell" where
  "wide_row = [78 \<mapsto> \<lparr>data = [19990], attrs = 0\<rparr>, 79 \<mapsto> \<lparr>data = [], attrs = 0\<rparr>]"

definition wide_world :: world where
  "wide_world =
     initial_world
       \<lparr>revx := 78, revy := 1,
        screen := (initial_screen 80 24)
          \<lparr>pyte := (pyte (initial_screen 80 24))\<lparr>buffer := [0 \<mapsto> wide_row, 1 \<mapsto> wide_row]\<rparr>\<rparr>\<rparr>"

definition wcwidth_of :: "str \<Rightarrow> int" where
  "wcwidth_of d = (if d = [] then 0 else if d = [19990] then 2 else 1)"

section \<open>The synth driver\<close>

text \<open>
  A \<open>Synth\<close> object with the trace of its run. \<open>pipe\<close> names the subprocess by the
  ordinal of the \<open>Popen\<close> call that made it; \<open>spawned\<close> counts the \<open>Popen\<close> calls and
  \<open>writes\<close> lists every write with its subprocess, its text and whether it went
  through. The environment is \<open>broken\<close>: the write number \<open>k\<close> of the run (write and
  flush together) raises \<open>BrokenPipeError\<close> when \<open>broken k\<close> holds.
\<close>

record synth =
  pipe :: "nat option"
  rate :: "int option"
  volume :: "int option"
  voice_idx :: "int option"
  spawned :: nat
  writes :: "(nat \<times> str \<times> bool) list"

text \<open>
  \<open>self.pipe.stdin.write(text); self.pipe.stdin.flush()\<close>, returning the exception
  raised, if any. Before the first \<open>start\<close> the pipe is \<open>None\<close> and has no \<open>stdin\<close>.
\<close>

definition pipe_write :: "(nat \<Rightarrow> bool) \<Rightarrow> str \<Rightarrow> synth \<Rightarrow> error option \<times> synth" where
  "pipe_write broken text s =
     (case pipe s of
        None \<Rightarrow> (Some AttributeError, s)
      | Some p \<Rightarrow>
          if broken (length (writes s))
          then (Some BrokenPipeError, s\<lparr>writes := writes s @ [(p, text, False)]\<rparr>)
          else (None, s\<lparr>writes := writes s @ [(p, text, True)]\<rparr>))"

definition popen :: "synth \<Rightarrow> synth" where
  "popen s = s\<lparr>pipe := Some (spawned s), spawned := Suc (spawned s)\<rparr>"

text \<open>\<open>'%d' % n\<close>.\<close>

definition str_of_int :: "int \<Rightarrow> str" where
  "str_of_int i = (if i < 0 then 45 # str_of_nat (nat (- i)) else str_of_nat (nat i))"

text \<open>
  \<open>set_rate\<close>, \<open>set_volume\<close>, \<open>set_voice_idx\<close> and \<open>start\<close> call \<open>send\<close>, and \<open>send\<close> calls
  \<open>start\<close>: they are written over the \<open>send\<close> they call.
\<close>

definition set_rate_with ::
  "(str \<Rightarrow> synth \<Rightarrow> error option \<times> synth) \<Rightarrow> int \<Rightarrow> synth \<Rightarrow> error option \<times> synth" where
  "set_rate_with send_fn r s = send_fn (py ''r'' @ str_of_int r @ [10]) (s\<lparr>rate := Some r\<rparr>)"

definition set_volume_with ::
  "(str \<Rightarrow> synth \<Rightarrow> error option \<times> synth) \<Rightarrow> int \<Rightarrow> synth \<Rightarrow> error option \<times> synth" where
  "set_volume_with send_fn v s = send_fn (py ''v'' @ str_of_int v @ [10]) (s\<lparr>volume := Some v\<rparr>)"

definition set_voice_idx_with ::
  "(str \<Rightarrow> synth \<Rightarrow> error option \<times> synth) \<Rightarrow> int \<Rightarrow> synth \<Rightarrow> error option \<times> synth" where
  "set_voice_idx_with send_fn i s =
     send_fn (py ''V'' @ str_of_int i @ [10]) (s\<lparr>voice_idx := Some i\<rparr>)"

definition start_with ::
  "(str \<Rightarrow> synth \<Rightarrow> error option \<times> synth) \<Rightarrow> synth \<Rightarrow> error option \<times> synth" where
  "start_with send_fn s =
     (let s0 = popen s
      in case (case rate s0 of None \<Rightarrow> (None, s0) | Some r \<Rightarrow> set_rate_with send_fn r s0) of
           (Some e, s1) \<Rightarrow> (Some e, s1)
         | (None, s1) \<Rightarrow>
             (case (case volume s1 of None \<Rightarrow> (None, s1)
                    | Some v \<Rightarrow> set_volume_with send_fn v s1) of
                (Some e, s2) \<Rightarrow> (Some e, s2)
              | (None, s2) \<Rightarrow>
                  (case voice_idx s2 of None \<Rightarrow> (None, s2)
                   | Some i \<Rightarrow> set_voice_idx_with send_fn i s2)))"

text \<open>
  \<open>Synth.send\<close>. Its first argument after the environment is the number of nested
  respawns that the interpreter's recursion limit still allows; where none is left,
  the call of \<open>start\<close> raises \<open>RecursionError\<close>, which no handler here catches.
\<close>

primrec send :: "(nat \<Rightarrow> bool) \<Rightarrow> nat \<Rightarrow> str \<Rightarrow> synth \<Rightarrow> error option \<times> synth" where
  "send broken 0 text s =
     (case pipe_write broken text s of
        (e, s1) \<Rightarrow> if e = Some BrokenPipeError then (Some RecursionError, s1) else (e, s1))"
| "send broken (Suc n) text s =
     (case pipe_write broken text s of
        (e, s1) \<Rightarrow>
          if e = Some BrokenPipeError
          then (case start_with (send broken n) s1 of
                  (e2, s2) \<Rightarrow>
                    if e2 = Some BrokenPipeError then (None, s2)
                    else if e2 = None
                    then (case pipe_write broken text s2 of
                            (e3, s3) \<Rightarrow>
                              if e3 = Some BrokenPipeError then (None, s3) else (e3, s3))
                    else (e2, s2))
          else (e, s1))"

definition start :: "(nat \<Rightarrow> bool) \<Rightarrow> nat \<Rightarrow> synth \<Rightarrow> error option \<times> synth" where
  "start broken n s = start_with (send broken n) s"

definition set_rate :: "(nat \<Rightarrow> bool) \<Rightarrow> nat \<Rightarrow> int \<Rightarrow> synth \<Rightarrow> error option \<times> synth" where
  "set_rate broken n r s = set_rate_with (send broken n) r s"







section \<open>The scheduler and the gating of speech\<close>



text \<open>
  Whenever the main loop finds text to flush and no silencing, with the flag clear, it
  schedules a flush and leaves the flag clear.
\<close>

lemma main_after_feed_schedules:
  "\<not> silence w \<Longrightarrow> \<not> tempsilence w \<Longrightarrow> tell (speech_buffer w) > 0 \<Longrightarrow>
   \<not> delaying_output w \<Longrightarrow>
   delayed_functions (main_after_feed now x y w) =
     delayed_functions w @ [(now + 0.005, Read_buffer_scheduled)] \<and>
   \<not> delaying_output (main_after_feed now x y w) \<and>
   \<not> silence (main_after_feed now x y w) \<and> \<not> tempsilence (main_after_feed now x y w) \<and>
   speech_buffer (main_after_feed now x y w) = speech_buffer w"
  by (simp add: main_after_feed_def schedule_def Let_def)

text \<open>
  C1 (the code departs from it). The flag \<open>delaying_output\<close> is read by the main loop and
  cleared by \<open>read_buffer_scheduled\<close>, but nothing sets it: two chunks of child output
  one millisecond apart, with text waiting in the speech buffer and no silencing, leave
  two deferred flushes pending at once.
\<close>

theorem main_after_feed_schedules_second_flush:
  "delayed_functions (main_after_feed 0.001 0 0 (main_after_feed 0 0 0 hi_world)) =
     [(0.005, Read_buffer_scheduled), (0.006, Read_buffer_scheduled)] \<and>
   delaying_output (main_after_feed 0 0 0 hi_world) = False"
  by (simp add: main_after_feed_def hi_world_def initial_world_def initial_screen_def
      initial_config_def schedule_def write_io_def py_def)




text \<open>
  C10. A call of \<open>sb\<close> with \<open>tempsilence\<close> set and text in the speech buffer sends
  nothing to the synth, schedules nothing, and leaves the buffer empty: the whole effect
  is the emptied buffer, so the text is gone, and a later flush, even with \<open>tempsilence\<close>
  cleared again, still sends nothing.
\<close>

theorem sb_tempsilence_discards:
  assumes "tempsilence w" and "getvalue (speech_buffer w) \<noteq> []"
  shows "sb w = w\<lparr>speech_buffer := \<lparr>getvalue = [], tell = 0\<rparr>\<rparr> \<and>
         sent (sb w) = sent w \<and>
         delayed_functions (sb w) = delayed_functions w \<and>
         sent (sb ((sb w)\<lparr>tempsilence := False\<rparr>)) = sent w"
  using assms by (simp add: sb_def truncate_io_def seek_def)

theorem sb_tempsilence_discards_witness:
  "tempsilence (hi_world\<lparr>tempsilence := True\<rparr>) \<and>
   getvalue (speech_buffer (hi_world\<lparr>tempsilence := True\<rparr>)) = py ''hi'' \<and>
   getvalue (speech_buffer (sb (hi_world\<lparr>tempsilence := True\<rparr>))) = [] \<and>
   sent (sb (hi_world\<lparr>tempsilence := True\<rparr>)) = []"
  using sb_tempsilence_discards [of "hi_world\<lparr>tempsilence := True\<rparr>"]
  by (simp add: hi_world_def initial_world_def write_io_def py_def)

section \<open>Repeated symbols\<close>

text \<open>
  C7 (the code departs from it). Each run is rewritten by replacing the first occurrence
  of its text in the line built so far, and a rewritten run of spaces, \<open>2\<close> followed by
  two spaces, itself contains a run of two spaces. With hyphen, space and equals sign
  configured, the line \<open>a  b  c\<close> becomes \<open>a22  b  c\<close>: the second run is left as it
  was and the first replacement is rewritten again. Runs of hyphens and equals signs
  are rewritten in place under the same configuration.
\<close>

theorem replace_duplicate_rewrites_wrong_run:
  "replace_duplicate_characters_with_count spaces_config (py ''a  b  c'') = py ''a22  b  c'' \<and>
   replace_duplicate_characters_with_count spaces_config (py ''a--b==c'') = py ''a2 -b2 =c''"
  by (simp add: replace_duplicate_characters_with_count_def spaces_config_def
      initial_config_def py_def str_of_nat.simps)

section \<open>Double presses\<close>



section \<open>The review cursor's motions\<close>

lemma say_keeps_review_cursor: "revx (say t f w) = revx w \<and> revy (say t f w) = revy w"
  by (simp add: say_def synth_send_def Let_def)

lemma sayword_back_revy: "revy (sayword_back w) = revy w"
proof (induction w rule: sayword_back.induct)
  case (1 w)
  then show ?case
    by (subst sayword_back.simps) (auto simp: move_prevchar_def)
qed

text \<open>Where the first loop has moved, it stands on a cell that is not a space.\<close>

lemma sayword_back_start: "sayword_back w = w \<or> get_char (sayword_back w) \<noteq> [32]"
proof (induction w rule: sayword_back.induct)
  case (1 w)
  show ?case
  proof (cases "revx w > 0 \<and> get_char w \<noteq> [32] \<and>
         data (cell_at (buffer (pyte (screen w))) (revy w) (revx w - 1)) \<noteq> [32]")
    case True
    then have mp: "move_prevchar w = w\<lparr>revx := revx w - 1\<rparr>" by (simp add: move_prevchar_def)
    have eq: "sayword_back w = sayword_back (move_prevchar w)"
      using True by (subst sayword_back.simps) simp
    from 1 [OF True] have "sayword_back (move_prevchar w) = move_prevchar w \<or>
        get_char (sayword_back (move_prevchar w)) \<noteq> [32]" .
    then show ?thesis
    proof
      assume "sayword_back (move_prevchar w) = move_prevchar w"
      with eq mp True show ?thesis by (simp add: get_char_def)
    next
      assume "get_char (sayword_back (move_prevchar w)) \<noteq> [32]"
      with eq show ?thesis by simp
    qed
  next
    case False
    then have "sayword_back w = w" by (subst sayword_back.simps) auto
    then show ?thesis by simp
  qed
qed

text \<open>
  C4. \<open>sayword\<close>, saying or spelling, returns with \<open>revx\<close> and \<open>revy\<close> as they were at
  the call, from every position on every screen. The path that says \<open>space\<close> returns
  without restoring them, and is taken only where the first loop has not moved.
\<close>

theorem sayword_keeps_review_cursor:
  "revx (sayword spell w) = revx w \<and> revy (sayword spell w) = revy w"
proof (cases "revx (sayword_back w) = 0 \<and> get_char (sayword_back w) = [32]")
  case True
  with sayword_back_start [of w] have "sayword_back w = w" by auto
  with True show ?thesis by (simp add: sayword_def say_keeps_review_cursor)
next
  case False
  then show ?thesis
    by (auto simp: sayword_def Let_def say_keeps_review_cursor split: prod.splits)
qed

text \<open>
  C3 (the code departs from it). \<open>nextchar\<close>, clamped at the right edge, walks left off
  the empty half of a wide character; \<open>endOfLine\<close> sets the same column and does not,
  and \<open>prevline\<close> changes the row and leaves the column. On a row that ends in a wide
  character, with the review cursor in column 78, \<open>nextchar\<close> stays on column 78, while
  \<open>endOfLine\<close> and then \<open>prevline\<close> leave the review cursor on the empty cell of
  column 79.
\<close>

theorem endOfLine_lands_on_empty_cell:
  "endOfLine wide_world = Inr (wide_world\<lparr>revx := 79, sent := [py ''l '' @ [10]]\<rparr>) \<and>
   get_char (wide_world\<lparr>revx := 79, sent := [py ''l '' @ [10]]\<rparr>) = [] \<and>
   revx (prevline (wide_world\<lparr>revx := 79\<rparr>)) = 79 \<and>
   revy (prevline (wide_world\<lparr>revx := 79\<rparr>)) = 0 \<and>
   get_char (prevline (wide_world\<lparr>revx := 79\<rparr>)) = [] \<and>
   nextchar wcwidth_of wide_world =
     Some (Inr (wide_world\<lparr>sent := [py ''sright'' @ [10], [108, 19990, 10]]\<rparr>))"
proof -
  have e: "endOfLine wide_world = Inr (wide_world\<lparr>revx := 79, sent := [py ''l '' @ [10]]\<rparr>)"
    by (simp add: endOfLine_def saychar_def say_character_def wide_world_def initial_world_def
        initial_screen_def initial_config_def cell_at_def wide_row_def synth_send_def py_def)
  have g: "get_char (wide_world\<lparr>revx := 79, sent := [py ''l '' @ [10]]\<rparr>) = []"
    by (simp add: get_char_def wide_world_def initial_world_def initial_screen_def cell_at_def
        wide_row_def)
  have p: "revx (prevline (wide_world\<lparr>revx := 79\<rparr>)) = 79 \<and>
           revy (prevline (wide_world\<lparr>revx := 79\<rparr>)) = 0"
    by (simp add: prevline_def sayline_def Let_def say_keeps_review_cursor wide_world_def)
  have s: "screen (prevline (wide_world\<lparr>revx := 79\<rparr>)) = screen wide_world"
    by (simp add: prevline_def sayline_def Let_def say_def synth_send_def wide_world_def)
  have pg: "get_char (prevline (wide_world\<lparr>revx := 79\<rparr>)) = []"
    unfolding get_char_def s using p
    by (simp add: wide_world_def initial_screen_def cell_at_def wide_row_def)
  have sk: "skip_to_previous_char (w\<lparr>revx := 79\<rparr>) = Some (w\<lparr>revx := 78\<rparr>)"
    if "screen w = screen wide_world" "revy w = 1" for w
    using that
    by (simp add: skip_to_previous_char.simps [of "w\<lparr>revx := 79\<rparr>"]
        skip_to_previous_char.simps [of "w\<lparr>revx := 78\<rparr>"]
        get_char_def wide_world_def initial_screen_def cell_at_def wide_row_def)
  have n: "nextchar wcwidth_of wide_world =
     Some (Inr (wide_world\<lparr>sent := [py ''sright'' @ [10], [108, 19990, 10]]\<rparr>))"
  proof -
    let ?said = "wide_world\<lparr>sent := [py ''sright'' @ [10]]\<rparr>"
    have w: "wcwidth_of (get_char wide_world) = 2"
      by (simp add: wcwidth_of_def get_char_def wide_world_def initial_world_def
          initial_screen_def cell_at_def wide_row_def)
    have c: "columns (pyte (screen wide_world)) = 80"
      by (simp add: wide_world_def initial_screen_def)
    have r: "say (py ''right'') False (wide_world\<lparr>revx := 80\<rparr>) = ?said\<lparr>revx := 80\<rparr>"
      by (simp add: say_def strip_def isspace_def build_symbols_re_def synth_send_def py_def
          wide_world_def initial_world_def initial_config_def)
    have k: "skip_to_previous_char (?said\<lparr>revx := 79\<rparr>) = Some (?said\<lparr>revx := 78\<rparr>)"
      by (rule sk) (simp_all add: wide_world_def)
    have x: "?said\<lparr>revx := 78\<rparr> = ?said"
      by (simp add: wide_world_def)
    have c2: "saychar 1 78 ?said =
        Inr (wide_world\<lparr>sent := [py ''sright'' @ [10], [108, 19990, 10]]\<rparr>)"
      by (simp add: saychar_def say_character_def Let_def synth_send_def py_def wide_world_def
          initial_world_def initial_screen_def initial_config_def cell_at_def wide_row_def)
    have rx: "revx wide_world = 78"
      by (simp add: wide_world_def)
    have y: "revx ?said = 78" "revy ?said = 1"
      by (simp_all add: wide_world_def)
    have "nextchar wcwidth_of wide_world =
        (case skip_to_previous_char (?said\<lparr>revx := 79\<rparr>) of
           None \<Rightarrow> None
         | Some w2 \<Rightarrow> Some (saychar (revy w2) (revx w2) w2))"
      unfolding nextchar_def Let_def w by (simp add: c r rx)
    also have "\<dots> = Some (saychar 1 78 ?said)"
      unfolding k x by (simp add: y)
    finally show ?thesis by (simp only: c2)
  qed
  from e g p pg n show ?thesis by simp
qed

section \<open>The alternate screen and the echo of keys\<close>

lemma inherited_keeps_saved:
  "saved_cursor (foldl (\<lambda>s f. inherited f s) s ops) = saved_cursor s \<and>
   saved_buffer (foldl (\<lambda>s f. inherited f s) s ops) = saved_buffer s"
  by (induction ops arbitrary: s) (simp_all add: inherited_def)

text \<open>A \<open>set_mode\<close> or \<open>reset_mode\<close> that does not name mode 1049 is an inherited method.\<close>

lemma set_mode_other:
  "1049 \<notin> set modes \<Longrightarrow>
   set_mode cursor_position super_set_mode modes private s =
     inherited (super_set_mode (if 3 \<in> set modes then remove1 3 modes else modes) private) s"
  by (auto simp: set_mode_def inherited_def Let_def dest: notin_set_remove1)

lemma reset_mode_other:
  "1049 \<notin> set modes \<Longrightarrow>
   reset_mode super_reset_mode modes private s =
     inherited (super_reset_mode (if 3 \<in> set modes then remove1 3 modes else modes) private) s"
  by (auto simp: reset_mode_def inherited_def Let_def split: option.splits
      dest: notin_set_remove1)

lemma set_mode_1049_saves:
  "saved_cursor (set_mode cursor_position super_set_mode [1049] private s) = Some (cursor (pyte s)) \<and>
   saved_buffer (set_mode cursor_position super_set_mode [1049] private s) = Some (buffer (pyte s))"
  by (simp add: set_mode_def Let_def)

text \<open>
  C6. Let the inherited \<open>reset_mode\<close>, called for mode 1049 alone, leave cursor and buffer
  as they are (it knows no such mode). Then after \<open>set_mode(1049)\<close>, any sequence of
  inherited methods and \<open>reset_mode(1049)\<close>, the buffer and the cursor are those of before
  the \<open>set_mode\<close>; and a \<open>reset_mode(1049)\<close> with nothing saved changes neither.
\<close>

theorem alternate_screen_round_trip:
  assumes "\<And>p private. cursor (super_reset_mode [1049] private p) = cursor p \<and>
                         buffer (super_reset_mode [1049] private p) = buffer p"
  shows "buffer (pyte (reset_mode super_reset_mode [1049] private_reset
                         (foldl (\<lambda>s f. inherited f s)
                            (set_mode cursor_position super_set_mode [1049] private_set s) ops)))
           = buffer (pyte s) \<and>
         cursor (pyte (reset_mode super_reset_mode [1049] private_reset
                         (foldl (\<lambda>s f. inherited f s)
                            (set_mode cursor_position super_set_mode [1049] private_set s) ops)))
           = cursor (pyte s) \<and>
         (saved_cursor s = None \<longrightarrow>
            buffer (pyte (reset_mode super_reset_mode [1049] private_reset s)) = buffer (pyte s) \<and>
            cursor (pyte (reset_mode super_reset_mode [1049] private_reset s)) = cursor (pyte s))"
proof -
  let ?mid = "foldl (\<lambda>s f. inherited f s)
                (set_mode cursor_position super_set_mode [1049] private_set s) ops"
  have c: "saved_cursor ?mid = Some (cursor (pyte s))"
    and b: "saved_buffer ?mid = Some (buffer (pyte s))"
    by (simp_all add: inherited_keeps_saved set_mode_1049_saves)
  have "buffer (pyte (reset_mode super_reset_mode [1049] private_reset ?mid)) = buffer (pyte s)"
    by (simp add: reset_mode_def Let_def c b assms)
  moreover
  have "cursor (pyte (reset_mode super_reset_mode [1049] private_reset ?mid)) = cursor (pyte s)"
    by (simp add: reset_mode_def Let_def c b assms)
  moreover
  have "buffer (pyte (reset_mode super_reset_mode [1049] private_reset s)) = buffer (pyte s) \<and>
        cursor (pyte (reset_mode super_reset_mode [1049] private_reset s)) = cursor (pyte s)"
    if "saved_cursor s = None"
    using that by (simp add: reset_mode_def Let_def assms)
  ultimately show ?thesis by blast
qed

theorem alternate_screen_round_trip_witness:
  "buffer (pyte (inherited editor_draws (set_mode home_cursor record_modes [1049] True shell_screen)))
     \<noteq> buffer (pyte shell_screen) \<and>
   buffer (pyte (reset_mode forget_modes [1049] True
                   (foldl (\<lambda>s f. inherited f s)
                      (set_mode home_cursor record_modes [1049] True shell_screen) [editor_draws])))
     = buffer (pyte shell_screen) \<and>
   cursor (pyte (reset_mode forget_modes [1049] True
                   (foldl (\<lambda>s f. inherited f s)
                      (set_mode home_cursor record_modes [1049] True shell_screen) [editor_draws])))
     = cursor (pyte shell_screen) \<and>
   saved_cursor shell_screen = None \<and>
   buffer (pyte (reset_mode forget_modes [1049] True shell_screen)) = buffer (pyte shell_screen)"
proof -
  have h: "cursor (forget_modes [1049] priv p) = cursor p \<and>
           buffer (forget_modes [1049] priv p) = buffer p" for p priv
    by (simp add: forget_modes_def)
  have n: "saved_cursor shell_screen = None"
    by (simp add: shell_screen_def initial_screen_def)
  have d: "buffer (pyte (inherited editor_draws
             (set_mode home_cursor record_modes [1049] True shell_screen))) 5 \<noteq>
           buffer (pyte shell_screen) 5"
    by (simp add: inherited_def editor_draws_def set_mode_def Let_def home_cursor_def
        record_modes_def shell_screen_def initial_screen_def)
  then have d2: "buffer (pyte (inherited editor_draws
             (set_mode home_cursor record_modes [1049] True shell_screen))) \<noteq>
           buffer (pyte shell_screen)"
    by metis
  show ?thesis
    using alternate_screen_round_trip [of forget_modes True home_cursor record_modes True
        shell_screen "[editor_draws]", OF h] n d2
    by simp
qed

lemma say_character_single: "\<exists>w0. say_character [c] w = Inr w0"
  by (cases "map_of (symbols (config w)) c") (simp_all add: say_character_def)

lemma draw2_returns:
  "\<exists>w1. draw2 super_draw text w = Inr w1 \<and> lastkey w1 = []"
proof (cases "text = lastkey w \<and> length text = 1 \<and> key_echo (config w)")
  case True
  then have "length text = Suc 0" by (elim conjE) (simp only: One_nat_def)
  then obtain c where "text = [c]" by (auto simp: length_Suc_conv)
  then obtain w0 where s: "say_character text w = Inr w0"
    using say_character_single by blast
  from True s show ?thesis
    by (simp add: draw2_def Let_def)
next
  case False
  then show ?thesis
    by (auto simp: draw2_def Let_def)
qed

lemma add_to_buffer_values_after_clear:
  "lastkey w = [] \<Longrightarrow> add_to_buffer_values super_draw text w = replicate (length text) True"
proof (induction "text" arbitrary: w)
  case Nil
  then show ?case by simp
next
  case (Cons c cs)
  obtain w1 where d: "draw2 super_draw [c] w = Inr w1" and l: "lastkey w1 = []"
    using draw2_returns by blast
  from Cons.IH [OF l] Cons.prems d show ?case
    by (simp add: add_to_buffer_def)
qed

text \<open>
  C9. Every \<open>draw2\<close> returns with \<open>lastkey\<close> empty, whatever the text and whatever
  \<open>lastkey\<close> was. So in a \<open>draw\<close> of several characters only the first can find
  \<open>add_to_buffer\<close> false, the test that keeps an echoed key out of the speech buffer;
  and once \<open>lastkey\<close> is empty no character of a later \<open>draw\<close> does either.
\<close>

theorem draw2_clears_lastkey:
  "(\<exists>w1. draw2 super_draw text w = Inr w1 \<and> lastkey w1 = []) \<and>
   tl (add_to_buffer_values super_draw text w) = replicate (length text - 1) True \<and>
   (lastkey w = [] \<longrightarrow>
      add_to_buffer_values super_draw text w = replicate (length text) True)"
proof -
  have "tl (add_to_buffer_values super_draw text w) = replicate (length text - 1) True"
  proof (cases "text")
    case Nil
    then show ?thesis by simp
  next
    case (Cons c cs)
    obtain w1 where d: "draw2 super_draw [c] w = Inr w1" and l: "lastkey w1 = []"
      using draw2_returns by blast
    from Cons d add_to_buffer_values_after_clear [OF l, of super_draw cs]
    show ?thesis by simp
  qed
  with draw2_returns [of super_draw "text" w] add_to_buffer_values_after_clear [of w super_draw "text"]
  show ?thesis by blast
qed

theorem draw2_clears_lastkey_witness:
  "add_to_buffer_values advance_cursor (py ''ab'') typed_a_world = [False, True] \<and>
   lastkey (initial_world) = [] \<and>
   add_to_buffer_values advance_cursor (py ''ab'') initial_world = [True, True] \<and>
   draw advance_cursor (py ''ab'') typed_a_world =
     Inr (typed_a_world
            \<lparr>lastkey := [], sent := [py ''la'' @ [10]],
             speech_buffer := \<lparr>getvalue = py ''b'', tell = 1\<rparr>,
             last_drawn_x := 2, last_drawn_y := 0,
             screen := (screen typed_a_world)
               \<lparr>pyte := advance_cursor [] (advance_cursor [] (pyte (screen typed_a_world)))\<rparr>\<rparr>)"
proof -
  have l: "lastkey initial_world = []"
    by (simp add: initial_world_def)
  have a: "add_to_buffer [97] typed_a_world = False"
    by (simp add: add_to_buffer_def typed_a_world_def py_def)
  have v: "add_to_buffer_values advance_cursor (py ''ab'') typed_a_world = [False, True]"
    using draw2_clears_lastkey [of advance_cursor "py ''ab''" typed_a_world] a
    by (simp add: py_def)
  have v2: "add_to_buffer_values advance_cursor (py ''ab'') initial_world = [True, True]"
    using draw2_clears_lastkey [of advance_cursor "py ''ab''" initial_world] l
    by (simp add: py_def)
  have dr: "draw advance_cursor (py ''ab'') typed_a_world =
     Inr (typed_a_world
            \<lparr>lastkey := [], sent := [py ''la'' @ [10]],
             speech_buffer := \<lparr>getvalue = py ''b'', tell = 1\<rparr>,
             last_drawn_x := 2, last_drawn_y := 0,
             screen := (screen typed_a_world)
               \<lparr>pyte := advance_cursor [] (advance_cursor [] (pyte (screen typed_a_world)))\<rparr>\<rparr>)"
    by (simp add: draw2_def Let_def say_character_def synth_send_def add_to_buffer_def
        write_io_def advance_cursor_def typed_a_world_def initial_world_def initial_config_def
        initial_screen_def py_def)
  from v v2 l dr show ?thesis by simp
qed

section \<open>Broken pipes\<close>


lemma send_no_broken_pipe: "fst (send broken n t s) \<noteq> Some BrokenPipeError"
  by (cases n) (auto split: prod.splits)








end
